theory Spec2Isabelle
  imports Main
begin

section \<open>JavaScript values\<close>

text \<open>
  The values the relay handler and the notification provider handle at run time.
  \<open>JUndefined\<close> is JavaScript's \<open>undefined\<close>: the value of a property that is absent.
  \<open>JNum\<close> carries an integer, since the only numbers the code touches are HTTP status
  codes. \<open>JObj\<close> is an object literal or a parsed JSON object, as its own properties in
  insertion order (keys distinct). \<open>JError m\<close> is an instance of \<open>Error\<close> whose
  \<open>message\<close> is \<open>m\<close>; any value can be thrown, so a thrown value is a \<open>js_value\<close>.
\<close>

datatype js_value =
    JUndefined
  | JNull
  | JBool bool
  | JNum int
  | JStr string
  | JArr "js_value list"
  | JObj "(string \<times> js_value) list"
  | JError string

text \<open>ToBoolean, which \<open>!x\<close> and \<open>if (x)\<close> apply to their operand.\<close>

fun truthy :: "js_value \<Rightarrow> bool" where
  "truthy JUndefined = False"
| "truthy JNull = False"
| "truthy (JBool b) = b"
| "truthy (JNum n) = (n \<noteq> 0)"
| "truthy (JStr s) = (s \<noteq> [])"
| "truthy (JArr xs) = True"
| "truthy (JObj ps) = True"
| "truthy (JError m) = True"

text \<open>\<open>error instanceof Error\<close> and \<open>error.message\<close> of the catch clauses.\<close>

fun instanceof_Error :: "js_value \<Rightarrow> bool" where
  "instanceof_Error (JError m) = True"
| "instanceof_Error v = False"

fun error_message :: "js_value \<Rightarrow> string" where
  "error_message (JError m) = m"
| "error_message v = []"

text \<open>
  \<open>responseData.id\<close>: reading a property of \<open>null\<close> or \<open>undefined\<close> throws a
  TypeError (the message is the one of V8, the engine of Node); an object gives the
  property's value, or \<open>undefined\<close> when it has none; every other value has no \<open>id\<close>.
\<close>

fun get_id :: "js_value \<Rightarrow> js_value + js_value" where
  "get_id JUndefined =
     Inl (JError (''Cannot read properties of undefined (reading '' @ [CHR 0x27] @ ''id'' @ [CHR 0x27] @ '')''))"
| "get_id JNull =
     Inl (JError (''Cannot read properties of null (reading '' @ [CHR 0x27] @ ''id'' @ [CHR 0x27] @ '')''))"
| "get_id (JObj ps) = Inr (case map_of ps ''id'' of None \<Rightarrow> JUndefined | Some v \<Rightarrow> v)"
| "get_id v = Inr JUndefined"

text \<open>
  A variable of \<open>process.env\<close>, like an entry of the Expo configuration, is a string or
  \<open>undefined\<close>. \<open>env_value\<close> is the value that the code tests, \<open>template\<close> is the text
  that it stands for in a string (so in a template literal \<open>`${x}`\<close>).
\<close>

definition env_value :: "string option \<Rightarrow> js_value" where
  "env_value x = (case x of None \<Rightarrow> JUndefined | Some s \<Rightarrow> JStr s)"

definition template :: "string option \<Rightarrow> string" where
  "template x = (case x of None \<Rightarrow> ''undefined'' | Some s \<Rightarrow> s)"


section \<open>The relay: \<open>POST /api/notifications/send\<close>\<close>

subsection \<open>What the handler talks to\<close>

text \<open>
  \<open>SendNotificationBody\<close> is \<open>request.body\<close> as the handler receives it: an object with
  the two fields. The route's schema, checked before the handler runs (see
  \<open>validate_body\<close> below), makes both fields strings; the handler itself works on any
  value.
\<close>

record SendNotificationBody =
  title :: js_value
  message :: js_value

text \<open>
  The \<open>Response\<close> of \<open>fetch\<close>: the status line, and what the two body readers
  \<open>text()\<close> (field \<open>text_body\<close>) and \<open>json()\<close> (field \<open>json_body\<close>) settle to
  (\<open>Inl\<close> a rejection with the thrown value: a broken stream, a body that is not JSON).
\<close>

record Response =
  status :: nat
  statusText :: string
  text_body :: "js_value + string"
  json_body :: "js_value + js_value"

text \<open>\<open>response.ok\<close> as the Fetch standard defines it: the status is in 200..299.\<close>

definition ok :: "Response \<Rightarrow> bool" where
  "ok r = (200 \<le> status r \<and> status r \<le> 299)"

text \<open>
  One call of \<open>fetch(url, init)\<close>: \<open>http_method\<close> is \<open>init.method\<close>, and \<open>body\<close> is the value
  given to \<open>JSON.stringify\<close>.
\<close>

record fetch_call =
  url :: string
  http_method :: string
  headers :: "(string \<times> string) list"
  body :: js_value

text \<open>
  The process the handler runs in: the environment variable it reads, and \<open>fetch\<close>,
  which resolves to a response or rejects (\<open>Inl\<close>) for each call.
\<close>

record environment =
  ONESIGNAL_REST_API_KEY :: "string option"
  fetch :: "fetch_call \<Rightarrow> js_value + Response"

datatype log_level = LInfo | LWarn | LDebug | LError

record log_entry =
  level :: log_level
  bindings :: "(string \<times> js_value) list"
  msg :: string

text \<open>
  The reply: Fastify starts it with status 200, \<open>reply.status(n)\<close> sets the status and
  \<open>reply.send(obj)\<close> writes \<open>obj\<close> as JSON, which leaves out every property whose value
  is \<open>undefined\<close>. \<open>sent\<close> is the object that goes on the wire. The replies of the
  handler have \<open>success\<close> a boolean and \<open>error\<close> a string, as the route's response schema
  (lines 30 to 52) has them; the schema would also turn a \<open>notificationId\<close> that is
  not a string into one, which is not modelled: the properties below are about a
  provider \<open>id\<close> that is a string or absent.
\<close>

record Reply =
  statusCode :: nat
  sent :: "js_value option"

definition fresh_reply :: Reply where
  "fresh_reply = \<lparr>statusCode = 200, sent = None\<rparr>"

definition reply_status :: "nat \<Rightarrow> Reply \<Rightarrow> Reply" where
  "reply_status n r = r\<lparr>statusCode := n\<rparr>"

fun written :: "js_value \<Rightarrow> js_value" where
  "written (JObj ps) = JObj (filter (\<lambda>p. snd p \<noteq> JUndefined) ps)"
| "written v = v"

definition reply_send :: "js_value \<Rightarrow> Reply \<Rightarrow> Reply" where
  "reply_send obj r = r\<lparr>sent := Some (written obj)\<rparr>"

text \<open>What one run of the handler does to the outside: the provider calls and the log.\<close>

record effects =
  calls :: "fetch_call list"
  logs :: "log_entry list"

definition no_effects :: effects where
  "no_effects = \<lparr>calls = [], logs = []\<rparr>"

definition logger :: "log_level \<Rightarrow> (string \<times> js_value) list \<Rightarrow> string \<Rightarrow> effects \<Rightarrow> effects" where
  "logger lv ctx m fx = fx\<lparr>logs := logs fx @ [\<lparr>level = lv, bindings = ctx, msg = m\<rparr>]\<rparr>"

subsection \<open>The handler\<close>

text \<open>
  The body of the \<open>try\<close> block (lines 61 to 122 of \<open>routes/notifications.ts\<close>). It ends
  with the reply it returns (\<open>Inr\<close>) or with the value thrown inside it (\<open>Inl\<close>): by a
  rejected \<open>fetch\<close>, a rejected \<open>response.text()\<close> or \<open>response.json()\<close>, or the
  property read \<open>responseData.id\<close>.
\<close>

definition try_block ::
  "environment \<Rightarrow> js_value \<Rightarrow> js_value \<Rightarrow> effects \<Rightarrow> (js_value + Reply) \<times> effects" where
  "try_block env title' message' fx =
     (if \<not> truthy title' \<or> \<not> truthy message' then
        (Inr (reply_send
                (JObj [(''success'', JBool False),
                       (''error'', JStr ''Missing required fields: title and message'')])
                (reply_status 400 fresh_reply)),
         logger LWarn [(''title'', title'), (''message'', message')]
           ''Missing required fields in notification request'' fx)
      else
        let appId = ''84bd5859-82bd-44dd-8a2e-c7e1ccca59f9'';
            restApiKey = ONESIGNAL_REST_API_KEY env
        in
        if \<not> truthy (env_value restApiKey) then
          (Inr (reply_send
                  (JObj [(''success'', JBool False),
                         (''error'', JStr ''OneSignal not configured'')])
                  (reply_status 500 fresh_reply)),
           logger LError [] ''OneSignal REST API key not configured'' fx)
        else
          let payload = JObj [(''app_id'', JStr appId),
                              (''included_segments'', JArr [JStr ''All'']),
                              (''headings'', JObj [(''en'', title')]),
                              (''contents'', JObj [(''en'', message')])];
              fx1 = logger LDebug [(''payload'', payload)] ''OneSignal payload prepared'' fx;
              call = \<lparr>url = ''https://onesignal.com/api/v1/notifications'',
                      http_method = ''POST'',
                      headers = [(''Content-Type'', ''application/json; charset=utf-8''),
                                 (''Authorization'', ''Basic '' @ template restApiKey)],
                      body = payload\<rparr>;
              fx2 = fx1\<lparr>calls := calls fx1 @ [call]\<rparr>
          in
          case fetch env call of
            Inl thrown \<Rightarrow> (Inl thrown, fx2)
          | Inr response \<Rightarrow>
              if \<not> ok response then
                (case text_body response of
                   Inl thrown \<Rightarrow> (Inl thrown, fx2)
                 | Inr errorData \<Rightarrow>
                     (Inr (reply_send
                             (JObj [(''success'', JBool False),
                                    (''error'', JStr (''OneSignal API error: '' @ statusText response))])
                             (reply_status 500 fresh_reply)),
                      logger LError
                        [(''status'', JNum (int (status response))), (''errorData'', JStr errorData),
                         (''title'', title'), (''message'', message')]
                        ''OneSignal API returned error'' fx2))
              else
                (case json_body response of
                   Inl thrown \<Rightarrow> (Inl thrown, fx2)
                 | Inr responseData \<Rightarrow>
                     (case get_id responseData of
                        Inl thrown \<Rightarrow> (Inl thrown, fx2)
                      | Inr notificationId \<Rightarrow>
                          (Inr (reply_send
                                  (JObj [(''success'', JBool True),
                                         (''notificationId'', notificationId)])
                                  fresh_reply),
                           logger LInfo
                             [(''notificationId'', notificationId),
                              (''title'', title'), (''message'', message')]
                             ''Notification sent successfully'' fx2))))"

text \<open>The \<open>catch\<close> clause (lines 123 to 129): log, and answer 500 with the error's message.\<close>

definition catch_block ::
  "js_value \<Rightarrow> js_value \<Rightarrow> js_value \<Rightarrow> effects \<Rightarrow> (js_value + Reply) \<times> effects" where
  "catch_block error title' message' fx =
     (Inr (reply_send
             (JObj [(''success'', JBool False),
                    (''error'', JStr (if instanceof_Error error then error_message error
                                      else ''Unknown error occurred''))])
             (reply_status 500 fresh_reply)),
      logger LError [(''err'', error), (''title'', title'), (''message'', message')]
        ''Failed to send notification'' fx)"

text \<open>
  The handler that \<open>register\<close> installs for \<open>POST /api/notifications/send\<close>
  (lines 55 to 130). Its result is the reply it returns, or \<open>Inl\<close> the value of an
  exception that leaves it, together with its effects.
\<close>

definition send_handler ::
  "environment \<Rightarrow> SendNotificationBody \<Rightarrow> (js_value + Reply) \<times> effects" where
  "send_handler env request_body =
     (let title' = title request_body;
          message' = message request_body;
          fx = logger LInfo [(''title'', title'), (''message'', message')]
                 ''Sending push notification via OneSignal'' no_effects
      in
      case try_block env title' message' fx of
        (Inr reply, fx') \<Rightarrow> (Inr reply, fx')
      | (Inl error, fx') \<Rightarrow> catch_block error title' message' fx')"

text \<open>The effects of the handler when it enters its \<open>try\<close>: the log line of line 58.\<close>

definition initial_effects :: "SendNotificationBody \<Rightarrow> effects" where
  "initial_effects request_body =
     logger LInfo [(''title'', title request_body), (''message'', message request_body)]
       ''Sending push notification via OneSignal'' no_effects"

subsection \<open>The route: the body schema, then the handler\<close>

text \<open>
  \<open>register\<close> installs the handler with a schema for the body (lines 19 to 29):
  an object, \<open>title\<close> and \<open>message\<close> required, both of type string. Fastify checks
  the schema before it calls the handler, with its default validator settings, under
  which a number, a boolean or \<open>null\<close> given for a string is coerced (to its decimal
  text, to \<open>true\<close> or \<open>false\<close>, to the empty string), and an array of one element
  stands for that element.
\<close>

function show_nat :: "nat \<Rightarrow> string" where
  "show_nat n =
     (if n < 10 then [''0123456789'' ! n]
      else show_nat (n div 10) @ [''0123456789'' ! (n mod 10)])"
  by pat_completeness auto
termination
  by (relation "measure id") auto

declare show_nat.simps [simp del]

definition number_text :: "int \<Rightarrow> string" where
  "number_text n = (if n < 0 then ''-'' @ show_nat (nat (- n)) else show_nat (nat n))"

fun coerce_scalar :: "js_value \<Rightarrow> js_value option" where
  "coerce_scalar (JStr s) = Some (JStr s)"
| "coerce_scalar (JNum n) = Some (JStr (number_text n))"
| "coerce_scalar (JBool b) = Some (JStr (if b then ''true'' else ''false''))"
| "coerce_scalar JNull = Some (JStr [])"
| "coerce_scalar v = None"

fun coerce_string :: "js_value \<Rightarrow> js_value option" where
  "coerce_string (JArr [v]) = coerce_scalar v"
| "coerce_string v = coerce_scalar v"

text \<open>
  The body that passes the schema, as the handler gets it; \<open>None\<close> when the body is
  not an object, when a required field is absent, or when a field cannot be a string.
\<close>

definition validate_body :: "js_value \<Rightarrow> SendNotificationBody option" where
  "validate_body raw =
     (case raw of
        JObj ps \<Rightarrow>
          (case (map_of ps ''title'', map_of ps ''message'') of
             (Some t, Some m) \<Rightarrow>
               (case (coerce_string t, coerce_string m) of
                  (Some t', Some m') \<Rightarrow> Some \<lparr>title = t', message = m'\<rparr>
                | _ \<Rightarrow> None)
           | _ \<Rightarrow> None)
      | _ \<Rightarrow> None)"



text \<open>The reply of the handler for a failure, as it goes on the wire.\<close>

definition failure :: "nat \<Rightarrow> string \<Rightarrow> Reply" where
  "failure n e =
     \<lparr>statusCode = n, sent = Some (JObj [(''success'', JBool False), (''error'', JStr e)])\<rparr>"

text \<open>The one call to the provider that a request with these fields and this key makes.\<close>

definition provider_call :: "string \<Rightarrow> js_value \<Rightarrow> js_value \<Rightarrow> fetch_call" where
  "provider_call key t m =
     \<lparr>url = ''https://onesignal.com/api/v1/notifications'',
      http_method = ''POST'',
      headers = [(''Content-Type'', ''application/json; charset=utf-8''),
                 (''Authorization'', ''Basic '' @ key)],
      body = JObj [(''app_id'', JStr ''84bd5859-82bd-44dd-8a2e-c7e1ccca59f9''),
                   (''included_segments'', JArr [JStr ''All'']),
                   (''headings'', JObj [(''en'', t)]),
                   (''contents'', JObj [(''en'', m)])]\<rparr>"


section \<open>The client: \<open>NotificationProvider\<close>\<close>

subsection \<open>Module constants and the SDK\<close>

text \<open>
  What the module reads once when it is loaded: \<open>extra.oneSignalAppId\<close> of the Expo
  configuration (\<open>None\<close> when the configuration has none), \<open>Platform.OS\<close> and \<open>__DEV__\<close>.
\<close>

record app_config =
  oneSignalAppId :: "string option"
  Platform_OS :: string
  DEV :: bool

text \<open>\<open>const ONESIGNAL_APP_ID = extra.oneSignalAppId || ""\<close>\<close>

definition ONESIGNAL_APP_ID :: "app_config \<Rightarrow> string" where
  "ONESIGNAL_APP_ID cfg =
     (if truthy (env_value (oneSignalAppId cfg)) then template (oneSignalAppId cfg) else [])"

text \<open>\<open>const isWeb = Platform.OS === "web"\<close>\<close>

definition isWeb :: "app_config \<Rightarrow> bool" where
  "isWeb cfg = (Platform_OS cfg = ''web'')"

text \<open>
  The OneSignal SDK, as what each of its entry points does when called: it returns
  (\<open>Inr\<close>) or throws, respectively rejects (\<open>Inl\<close> the thrown value).
\<close>

record OneSignal =
  OneSignal_initialize :: "string \<Rightarrow> js_value + unit"
  Notifications_hasPermission :: "js_value + bool"
  Notifications_addEventListener :: "string \<Rightarrow> js_value + unit"
  Notifications_requestPermission :: "bool \<Rightarrow> js_value + bool"
  User_addTag :: "string \<Rightarrow> string \<Rightarrow> js_value + unit"
  User_removeTag :: "string \<Rightarrow> js_value + unit"

text \<open>The calls that reach the SDK, in the order they are made.\<close>

datatype sdk_call =
    Initialize string
  | HasPermission
  | AddEventListener string
  | RequestPermission bool
  | AddTag string string
  | RemoveTag string
  | Display

datatype console_level = Console_log | Console_warn | Console_error

text \<open>
  The notification of a \<open>foregroundWillDisplay\<close> event, and what its \<open>display()\<close> does.
\<close>

record OSNotification =
  notification_title :: js_value
  notification_body :: js_value
  additionalData :: js_value
  display :: "js_value + unit"

text \<open>
  The provider's four \<open>useState\<close> cells, with the two traces of what it did to the
  outside: the SDK calls and the console lines (level, text, further arguments).
  \<open>rendered\<close> lists the values of \<open>(hasPermission, permissionDenied)\<close> after each call
  of a setter: what the consumers are rendered with when React renders after each
  call, as it does for setters called from a listener or after an \<open>await\<close> when it does
  not batch them.
\<close>

record provider_state =
  hasPermission :: bool
  permissionDenied :: bool
  loading :: bool
  lastNotification :: js_value
  sdk_calls :: "sdk_call list"
  console :: "(console_level \<times> string \<times> js_value list) list"
  rendered :: "(bool \<times> bool) list"

text \<open>The state of the first render: the initial values given to \<open>useState\<close>.\<close>

definition initial_state :: provider_state where
  "initial_state =
     \<lparr>hasPermission = False, permissionDenied = False, loading = True,
      lastNotification = JNull, sdk_calls = [], console = [], rendered = []\<rparr>"

text \<open>The four setters of the \<open>useState\<close> cells. Each call is one update of the state.\<close>

definition render :: "provider_state \<Rightarrow> provider_state" where
  "render s = s\<lparr>rendered := rendered s @ [(hasPermission s, permissionDenied s)]\<rparr>"

definition setHasPermission :: "bool \<Rightarrow> provider_state \<Rightarrow> provider_state" where
  "setHasPermission v s = render (s\<lparr>hasPermission := v\<rparr>)"

definition setPermissionDenied :: "bool \<Rightarrow> provider_state \<Rightarrow> provider_state" where
  "setPermissionDenied v s = render (s\<lparr>permissionDenied := v\<rparr>)"

definition setLoading :: "bool \<Rightarrow> provider_state \<Rightarrow> provider_state" where
  "setLoading v s = render (s\<lparr>loading := v\<rparr>)"

definition setLastNotification :: "js_value \<Rightarrow> provider_state \<Rightarrow> provider_state" where
  "setLastNotification v s = render (s\<lparr>lastNotification := v\<rparr>)"

definition call_sdk :: "sdk_call \<Rightarrow> provider_state \<Rightarrow> provider_state" where
  "call_sdk c s = s\<lparr>sdk_calls := sdk_calls s @ [c]\<rparr>"

definition console_print ::
  "console_level \<Rightarrow> string \<Rightarrow> js_value list \<Rightarrow> provider_state \<Rightarrow> provider_state" where
  "console_print lv m args s = s\<lparr>console := console s @ [(lv, m, args)]\<rparr>"

subsection \<open>The mount effect\<close>

text \<open>
  The \<open>try\<close> block of the effect (lines 386 to 421 of the context module): initialise
  the SDK, read the permission, register the two listeners. Each SDK call may throw.
\<close>

definition init_try ::
  "app_config \<Rightarrow> OneSignal \<Rightarrow> provider_state \<Rightarrow> (js_value + unit) \<times> provider_state" where
  "init_try cfg sdk s =
     (let s1 = call_sdk (Initialize (ONESIGNAL_APP_ID cfg)) s in
      case OneSignal_initialize sdk (ONESIGNAL_APP_ID cfg) of
        Inl thrown \<Rightarrow> (Inl thrown, s1)
      | Inr u \<Rightarrow>
          (let s2 = (if DEV cfg
                     then console_print Console_log ''[OneSignal] Initialized with App ID:''
                            [JStr (take 8 (ONESIGNAL_APP_ID cfg) @ ''...'')] s1
                     else s1);
               s3 = call_sdk HasPermission s2
           in
           (case Notifications_hasPermission sdk of
              Inl thrown \<Rightarrow> (Inl thrown, s3)
            | Inr permissionStatus \<Rightarrow>
                (let s4 = setHasPermission permissionStatus s3;
                     s5 = call_sdk (AddEventListener ''foregroundWillDisplay'') s4
                 in
                 (case Notifications_addEventListener sdk ''foregroundWillDisplay'' of
                    Inl thrown \<Rightarrow> (Inl thrown, s5)
                  | Inr u \<Rightarrow>
                      (let s6 = call_sdk (AddEventListener ''permissionChange'') s5 in
                       (case Notifications_addEventListener sdk ''permissionChange'' of
                          Inl thrown \<Rightarrow> (Inl thrown, s6)
                        | Inr u \<Rightarrow> (Inr (), s6))))))))"

text \<open>
  The effect that runs once on mount (lines 371 to 427). Its result is \<open>Inr ()\<close> when it
  returns and \<open>Inl\<close> the value of an exception that leaves it.
\<close>

definition mount_effect ::
  "app_config \<Rightarrow> OneSignal \<Rightarrow> provider_state \<Rightarrow> (js_value + unit) \<times> provider_state" where
  "mount_effect cfg sdk s =
     (if isWeb cfg then (Inr (), setLoading False s)
      else if \<not> truthy (JStr (ONESIGNAL_APP_ID cfg)) then
        (Inr (),
         setLoading False
           (console_print Console_warn
              ''[OneSignal] App ID not provided. Please add oneSignalAppId to app.json extra.''
              [] s))
      else
        case init_try cfg sdk s of
          (Inr u, s') \<Rightarrow> (Inr (), setLoading False s')
        | (Inl error, s') \<Rightarrow>
            (Inr (),
             setLoading False
               (console_print Console_error ''[OneSignal] Failed to initialize:'' [error] s')))"

subsection \<open>The listeners\<close>

text \<open>
  The \<open>permissionChange\<close> listener (lines 417 to 420): \<open>setHasPermission(granted)\<close>, then
  \<open>setPermissionDenied(!granted)\<close>.
\<close>

definition permissionChange :: "bool \<Rightarrow> provider_state \<Rightarrow> provider_state" where
  "permissionChange granted s = setPermissionDenied (\<not> granted) (setHasPermission granted s)"

text \<open>
  The \<open>foregroundWillDisplay\<close> listener (lines 401 to 411). It has no \<open>try\<close>: an
  exception of \<open>display()\<close> goes back to the SDK that called the listener.
\<close>

definition foregroundWillDisplay ::
  "OSNotification \<Rightarrow> provider_state \<Rightarrow> (js_value + unit) \<times> provider_state" where
  "foregroundWillDisplay notification s =
     (let s1 = call_sdk Display s in
      case display notification of
        Inl thrown \<Rightarrow> (Inl thrown, s1)
      | Inr u \<Rightarrow>
          (Inr (),
           setLastNotification
             (JObj [(''title'', notification_title notification),
                    (''body'', notification_body notification),
                    (''additionalData'', additionalData notification)])
             s1))"

subsection \<open>The operations\<close>

text \<open>
  \<open>requestPermission\<close> (lines 429 to 441). The result is what its promise settles to:
  \<open>Inr\<close> the boolean it resolves to, \<open>Inl\<close> a rejection. The SDK call and the two
  setter calls that follow its \<open>await\<close> are run to the end here.
\<close>

definition requestPermission ::
  "app_config \<Rightarrow> OneSignal \<Rightarrow> provider_state \<Rightarrow> (js_value + bool) \<times> provider_state" where
  "requestPermission cfg sdk s =
     (if isWeb cfg then (Inr False, s)
      else
        let s1 = call_sdk (RequestPermission True) s in
        case Notifications_requestPermission sdk True of
          Inr granted \<Rightarrow>
            (Inr granted, setPermissionDenied (\<not> granted) (setHasPermission granted s1))
        | Inl error \<Rightarrow>
            (Inr False,
             console_print Console_error ''[OneSignal] Permission request failed:'' [error] s1))"

text \<open>\<open>sendTag\<close> (lines 443 to 450) and \<open>deleteTag\<close> (lines 452 to 459).\<close>

definition sendTag ::
  "app_config \<Rightarrow> OneSignal \<Rightarrow> string \<Rightarrow> string \<Rightarrow> provider_state
     \<Rightarrow> (js_value + unit) \<times> provider_state" where
  "sendTag cfg sdk key val s =
     (if isWeb cfg then (Inr (), s)
      else
        let s1 = call_sdk (AddTag key val) s in
        case User_addTag sdk key val of
          Inr u \<Rightarrow> (Inr (), s1)
        | Inl error \<Rightarrow>
            (Inr (), console_print Console_error ''[OneSignal] Failed to send tag:'' [error] s1))"

definition deleteTag ::
  "app_config \<Rightarrow> OneSignal \<Rightarrow> string \<Rightarrow> provider_state
     \<Rightarrow> (js_value + unit) \<times> provider_state" where
  "deleteTag cfg sdk key s =
     (if isWeb cfg then (Inr (), s)
      else
        let s1 = call_sdk (RemoveTag key) s in
        case User_removeTag sdk key of
          Inr u \<Rightarrow> (Inr (), s1)
        | Inl error \<Rightarrow>
            (Inr (), console_print Console_error ''[OneSignal] Failed to delete tag:'' [error] s1))"

subsection \<open>Runs of the provider\<close>

text \<open>
  What can happen to a mounted provider: a consumer calls one of the three operations,
  or the SDK calls one of the two listeners. The SDK's behaviour may differ from one
  step to the next, so each step carries the behaviour it meets.
\<close>

datatype action =
    Request_permission
  | Send_tag string string
  | Delete_tag string
  | Permission_change bool
  | Foreground_will_display OSNotification

fun step :: "app_config \<Rightarrow> provider_state \<Rightarrow> OneSignal \<times> action \<Rightarrow> provider_state" where
  "step cfg s (sdk, Request_permission) = snd (requestPermission cfg sdk s)"
| "step cfg s (sdk, Send_tag key val) = snd (sendTag cfg sdk key val s)"
| "step cfg s (sdk, Delete_tag key) = snd (deleteTag cfg sdk key s)"
| "step cfg s (sdk, Permission_change granted) = permissionChange granted s"
| "step cfg s (sdk, Foreground_will_display notification) =
     snd (foregroundWillDisplay notification s)"

text \<open>
  A run: the mount effect on the state of the first render, then any steps. The effect
  runs to its end before any listener or any continuation of an \<open>await\<close> can run.
  \<open>run\<close> gives the state at the end of the last step; the states between the setter
  calls of the steps are in its \<open>rendered\<close>.
\<close>

definition run :: "app_config \<Rightarrow> OneSignal \<Rightarrow> (OneSignal \<times> action) list \<Rightarrow> provider_state" where
  "run cfg sdk steps = foldl (step cfg) (snd (mount_effect cfg sdk initial_state)) steps"


text \<open>The two permission flags exclude each other.\<close>

definition exclusive :: "provider_state \<Rightarrow> bool" where
  "exclusive s = (\<not> (hasPermission s \<and> permissionDenied s))"


section \<open>Concrete scenarios\<close>

text \<open>Requests, provider responses and processes on which the theorems are instantiated.\<close>

definition hello_body :: SendNotificationBody where
  "hello_body = \<lparr>title = JStr ''Hello'', message = JStr ''World''\<rparr>"




definition accepted :: Response where
  "accepted = \<lparr>status = 200, statusText = ''OK'', text_body = Inr ''id abc123'',
                json_body = Inr (JObj [(''id'', JStr ''abc123'')])\<rparr>"

definition accepted_without_id :: Response where
  "accepted_without_id = \<lparr>status = 200, statusText = ''OK'', text_body = Inr ''errors'',
                           json_body = Inr (JObj [(''errors'', JArr [])])\<rparr>"

definition refused :: Response where
  "refused = \<lparr>status = 400, statusText = ''Bad Request'', text_body = Inr ''app_id not found'',
               json_body = Inr (JObj [(''errors'', JArr [JStr ''app_id not found''])])\<rparr>"

text \<open>A refusal whose body cannot be read: the connection breaks after the status line.\<close>

definition refused_unreadable :: Response where
  "refused_unreadable = \<lparr>status = 502, statusText = ''Bad Gateway'',
                          text_body = Inl (JError ''terminated''),
                          json_body = Inl (JError ''terminated'')\<rparr>"

definition relay_env :: "string option \<Rightarrow> js_value + Response \<Rightarrow> environment" where
  "relay_env key outcome = \<lparr>ONESIGNAL_REST_API_KEY = key, fetch = (\<lambda>c. outcome)\<rparr>"

definition ios_without_app_id :: app_config where
  "ios_without_app_id = \<lparr>oneSignalAppId = None, Platform_OS = ''ios'', DEV = False\<rparr>"

definition ios_app :: app_config where
  "ios_app = \<lparr>oneSignalAppId = Some ''84bd5859-82bd-44dd-8a2e-c7e1ccca59f9'',
               Platform_OS = ''ios'', DEV = True\<rparr>"

definition web_app :: app_config where
  "web_app = \<lparr>oneSignalAppId = Some ''84bd5859-82bd-44dd-8a2e-c7e1ccca59f9'',
               Platform_OS = ''web'', DEV = False\<rparr>"

text \<open>An SDK whose calls all return, granting or refusing the permission.\<close>

definition answering_sdk :: "bool \<Rightarrow> OneSignal" where
  "answering_sdk granted =
     \<lparr>OneSignal_initialize = (\<lambda>appId. Inr ()),
      Notifications_hasPermission = Inr granted,
      Notifications_addEventListener = (\<lambda>name. Inr ()),
      Notifications_requestPermission = (\<lambda>fallback. Inr granted),
      User_addTag = (\<lambda>key val. Inr ()),
      User_removeTag = (\<lambda>key. Inr ())\<rparr>"

text \<open>An SDK whose calls all throw.\<close>

definition failing_sdk :: OneSignal where
  "failing_sdk =
     \<lparr>OneSignal_initialize = (\<lambda>appId. Inl (JError ''native module missing'')),
      Notifications_hasPermission = Inl (JError ''native module missing''),
      Notifications_addEventListener = (\<lambda>name. Inl (JError ''native module missing'')),
      Notifications_requestPermission = (\<lambda>fallback. Inl (JError ''native module missing'')),
      User_addTag = (\<lambda>key val. Inl (JError ''native module missing'')),
      User_removeTag = (\<lambda>key. Inl (JError ''native module missing''))\<rparr>"



section \<open>The relay: properties\<close>

subsection \<open>The handler, path by path\<close>

lemma logger_calls: "calls (logger lv ctx m fx) = calls fx"
  by (simp add: logger_def)

lemma initial_effects_calls: "calls (initial_effects rb) = []"
  by (simp add: initial_effects_def logger_calls no_effects_def)

lemma catch_block_calls: "calls (snd (catch_block e t m fx)) = calls fx"
  by (simp add: catch_block_def logger_calls)

lemma failure_eq:
  "reply_send (JObj [(''success'', JBool False), (''error'', JStr e)]) (reply_status n fresh_reply)
     = failure n e"
  by (simp add: reply_send_def reply_status_def fresh_reply_def failure_def)

lemma success_reply:
  "reply_send (JObj [(''success'', JBool True), (''notificationId'', v)]) fresh_reply =
     \<lparr>statusCode = 200,
      sent = Some (JObj (if v = JUndefined then [(''success'', JBool True)]
                         else [(''success'', JBool True), (''notificationId'', v)]))\<rparr>"
  by (simp add: reply_send_def fresh_reply_def)

lemma catch_block_reply:
  "fst (catch_block e t m fx) =
     Inr (failure 500 (if instanceof_Error e then error_message e else ''Unknown error occurred''))"
  by (simp add: catch_block_def failure_eq)

lemma send_handler_eq:
  "send_handler env rb =
     (case try_block env (title rb) (message rb) (initial_effects rb) of
        (Inr reply, fx') \<Rightarrow> (Inr reply, fx')
      | (Inl error, fx') \<Rightarrow> catch_block error (title rb) (message rb) fx')"
  by (simp add: send_handler_def initial_effects_def Let_def)

lemma send_handler_calls:
  "calls (snd (send_handler env rb)) =
     calls (snd (try_block env (title rb) (message rb) (initial_effects rb)))"
  by (simp add: send_handler_eq catch_block_calls split: prod.split sum.split)

lemma send_handler_reply:
  "fst (send_handler env rb) =
     (case fst (try_block env (title rb) (message rb) (initial_effects rb)) of
        Inr reply \<Rightarrow> Inr reply
      | Inl error \<Rightarrow>
          Inr (failure 500 (if instanceof_Error error then error_message error
                            else ''Unknown error occurred'')))"
  by (simp add: send_handler_eq catch_block_reply split: prod.split sum.split)


lemma try_block_unconfigured:
  assumes "truthy t" "truthy m" "\<not> truthy (env_value (ONESIGNAL_REST_API_KEY env))"
  shows "try_block env t m fx =
     (Inr (failure 500 ''OneSignal not configured''),
      logger LError [] ''OneSignal REST API key not configured'' fx)"
  using assms by (simp add: try_block_def failure_eq)

text \<open>With both fields and the key, the handler calls the provider and goes on from there.\<close>

lemma try_block_configured:
  assumes "truthy t" "truthy m" "ONESIGNAL_REST_API_KEY env = Some key" "key \<noteq> []"
  shows "try_block env t m fx =
     (let fx2 = (logger LDebug [(''payload'', body (provider_call key t m))]
                   ''OneSignal payload prepared'' fx)
                  \<lparr>calls := calls fx @ [provider_call key t m]\<rparr>
      in case fetch env (provider_call key t m) of
           Inl thrown \<Rightarrow> (Inl thrown, fx2)
         | Inr response \<Rightarrow>
             if \<not> ok response then
               (case text_body response of
                  Inl thrown \<Rightarrow> (Inl thrown, fx2)
                | Inr errorData \<Rightarrow>
                    (Inr (failure 500 (''OneSignal API error: '' @ statusText response)),
                     logger LError
                       [(''status'', JNum (int (status response))), (''errorData'', JStr errorData),
                        (''title'', t), (''message'', m)]
                       ''OneSignal API returned error'' fx2))
             else
               (case json_body response of
                  Inl thrown \<Rightarrow> (Inl thrown, fx2)
                | Inr responseData \<Rightarrow>
                    (case get_id responseData of
                       Inl thrown \<Rightarrow> (Inl thrown, fx2)
                     | Inr notificationId \<Rightarrow>
                         (Inr (reply_send
                                 (JObj [(''success'', JBool True),
                                        (''notificationId'', notificationId)])
                                 fresh_reply),
                          logger LInfo
                            [(''notificationId'', notificationId),
                             (''title'', t), (''message'', m)]
                            ''Notification sent successfully'' fx2))))"
  using assms
  by (simp add: try_block_def failure_eq env_value_def template_def provider_call_def Let_def
        logger_calls split: sum.split)

lemma try_block_calls:
  assumes "truthy t" "truthy m" "ONESIGNAL_REST_API_KEY env = Some key" "key \<noteq> []"
  shows "calls (snd (try_block env t m fx)) = calls fx @ [provider_call key t m]"
  by (simp add: try_block_configured[OF assms] Let_def logger_calls split: sum.splits)

lemma try_block_success:
  assumes "truthy t" "truthy m" "ONESIGNAL_REST_API_KEY env = Some key" "key \<noteq> []"
    and "fetch env (provider_call key t m) = Inr response" "ok response"
    and "json_body response = Inr (JObj ps)"
  shows "fst (try_block env t m fx) =
           Inr \<lparr>statusCode = 200,
                sent = Some (JObj (case map_of ps ''id'' of
                                     None \<Rightarrow> [(''success'', JBool True)]
                                   | Some v \<Rightarrow>
                                       if v = JUndefined then [(''success'', JBool True)]
                                       else [(''success'', JBool True), (''notificationId'', v)]))\<rparr>"
  using assms(5-7)
  by (simp add: try_block_configured[OF assms(1-4)] Let_def success_reply split: option.split)

lemma try_block_refused:
  assumes "truthy t" "truthy m" "ONESIGNAL_REST_API_KEY env = Some key" "key \<noteq> []"
    and "fetch env (provider_call key t m) = Inr response" "\<not> ok response"
    and "text_body response = Inr errorData"
  shows "fst (try_block env t m fx) =
           Inr (failure 500 (''OneSignal API error: '' @ statusText response))"
  using assms(5-7)
  by (simp add: try_block_configured[OF assms(1-4)] Let_def)

text \<open>The four places where the \<open>try\<close> block throws.\<close>

lemma try_block_throws:
  assumes "truthy t" "truthy m" "ONESIGNAL_REST_API_KEY env = Some key" "key \<noteq> []"
  shows "fetch env (provider_call key t m) = Inl e \<Longrightarrow> fst (try_block env t m fx) = Inl e"
    and "fetch env (provider_call key t m) = Inr response \<Longrightarrow> \<not> ok response \<Longrightarrow>
           text_body response = Inl e \<Longrightarrow> fst (try_block env t m fx) = Inl e"
    and "fetch env (provider_call key t m) = Inr response \<Longrightarrow> ok response \<Longrightarrow>
           json_body response = Inl e \<Longrightarrow> fst (try_block env t m fx) = Inl e"
    and "fetch env (provider_call key t m) = Inr response \<Longrightarrow> ok response \<Longrightarrow>
           json_body response = Inr responseData \<Longrightarrow> get_id responseData = Inl e \<Longrightarrow>
           fst (try_block env t m fx) = Inl e"
  by (simp_all add: try_block_configured[OF assms] Let_def)

text \<open>The scenarios, evaluated.\<close>

lemma hello_body_fields:
  "title hello_body = JStr ''Hello''" "message hello_body = JStr ''World''"
  "truthy (title hello_body)" "truthy (message hello_body)"
  by (simp_all add: hello_body_def)

lemma relay_env_simps:
  "ONESIGNAL_REST_API_KEY (relay_env key outcome) = key"
  "fetch (relay_env key outcome) c = outcome"
  by (simp_all add: relay_env_def)


subsection \<open>The relay's contract\<close>

text \<open>
  Claim C1. A request whose title and message are both non-empty, handled with the REST
  API key configured, makes exactly one call to the provider: a POST to the
  notification endpoint whose payload is
  \<open>{app_id: <the static app id>, included_segments: ["All"], headings: {en: title},
  contents: {en: message}}\<close>. When the provider answers with a success status and a
  body whose \<open>id\<close> is a string, the relay answers 200 with \<open>success: true\<close> and that
  \<open>notificationId\<close>; when the body has no \<open>id\<close>, the answer is 200 with
  \<open>success: true\<close> and no \<open>notificationId\<close>.
\<close>

theorem well_formed_request_relayed:
  assumes "truthy (title rb)" and "truthy (message rb)"
    and "ONESIGNAL_REST_API_KEY env = Some key" and "key \<noteq> []"
  shows "calls (snd (send_handler env rb)) = [provider_call key (title rb) (message rb)]
    \<and> (\<forall>response ps i.
          fetch env (provider_call key (title rb) (message rb)) = Inr response
          \<and> ok response \<and> json_body response = Inr (JObj ps) \<and> map_of ps ''id'' = Some (JStr i)
          \<longrightarrow> fst (send_handler env rb) =
                Inr \<lparr>statusCode = 200,
                     sent = Some (JObj [(''success'', JBool True), (''notificationId'', JStr i)])\<rparr>)
    \<and> (\<forall>response ps.
          fetch env (provider_call key (title rb) (message rb)) = Inr response
          \<and> ok response \<and> json_body response = Inr (JObj ps) \<and> map_of ps ''id'' = None
          \<longrightarrow> fst (send_handler env rb) =
                Inr \<lparr>statusCode = 200, sent = Some (JObj [(''success'', JBool True)])\<rparr>)"
proof (intro conjI allI impI)
  show "calls (snd (send_handler env rb)) = [provider_call key (title rb) (message rb)]"
    by (simp add: send_handler_calls try_block_calls[OF assms] initial_effects_calls)
next
  fix response ps i
  assume "fetch env (provider_call key (title rb) (message rb)) = Inr response
          \<and> ok response \<and> json_body response = Inr (JObj ps) \<and> map_of ps ''id'' = Some (JStr i)"
  then have "fst (try_block env (title rb) (message rb) (initial_effects rb)) =
      Inr \<lparr>statusCode = 200,
           sent = Some (JObj [(''success'', JBool True), (''notificationId'', JStr i)])\<rparr>"
    using try_block_success[OF assms, of response ps "initial_effects rb"] by simp
  then show "fst (send_handler env rb) =
                Inr \<lparr>statusCode = 200,
                     sent = Some (JObj [(''success'', JBool True), (''notificationId'', JStr i)])\<rparr>"
    by (simp add: send_handler_reply)
next
  fix response ps
  assume "fetch env (provider_call key (title rb) (message rb)) = Inr response
          \<and> ok response \<and> json_body response = Inr (JObj ps) \<and> map_of ps ''id'' = None"
  then have "fst (try_block env (title rb) (message rb) (initial_effects rb)) =
      Inr \<lparr>statusCode = 200, sent = Some (JObj [(''success'', JBool True)])\<rparr>"
    using try_block_success[OF assms, of response ps "initial_effects rb"] by simp
  then show "fst (send_handler env rb) =
                Inr \<lparr>statusCode = 200, sent = Some (JObj [(''success'', JBool True)])\<rparr>"
    by (simp add: send_handler_reply)
qed

text \<open>
  The request \<open>{title: "Hello", message: "World"}\<close> with the key \<open>secret\<close>, answered by the
  provider with 200 and \<open>{id: "abc123"}\<close>, and with 200 and a body without \<open>id\<close>.
\<close>

theorem well_formed_request_relayed_witness:
  "truthy (title hello_body) \<and> truthy (message hello_body)
   \<and> ONESIGNAL_REST_API_KEY (relay_env (Some ''secret'') (Inr accepted)) = Some ''secret''
   \<and> ok accepted \<and> ok accepted_without_id
   \<and> calls (snd (send_handler (relay_env (Some ''secret'') (Inr accepted)) hello_body))
       = [provider_call ''secret'' (JStr ''Hello'') (JStr ''World'')]
   \<and> fst (send_handler (relay_env (Some ''secret'') (Inr accepted)) hello_body)
       = Inr \<lparr>statusCode = 200,
              sent = Some (JObj [(''success'', JBool True),
                                 (''notificationId'', JStr ''abc123'')])\<rparr>
   \<and> fst (send_handler (relay_env (Some ''secret'') (Inr accepted_without_id)) hello_body)
       = Inr \<lparr>statusCode = 200, sent = Some (JObj [(''success'', JBool True)])\<rparr>"
proof -
  have k1: "ONESIGNAL_REST_API_KEY (relay_env (Some ''secret'') (Inr accepted)) = Some ''secret''"
    and k2: "ONESIGNAL_REST_API_KEY (relay_env (Some ''secret'') (Inr accepted_without_id))
               = Some ''secret''"
    by (simp_all add: relay_env_simps)
  have n: "''secret'' \<noteq> []" by simp
  have o: "ok accepted" "ok accepted_without_id"
    by (simp_all add: ok_def accepted_def accepted_without_id_def)
  note a = well_formed_request_relayed[OF hello_body_fields(3,4) k1 n]
  note b = well_formed_request_relayed[OF hello_body_fields(3,4) k2 n]
  have c: "calls (snd (send_handler (relay_env (Some ''secret'') (Inr accepted)) hello_body))
             = [provider_call ''secret'' (JStr ''Hello'') (JStr ''World'')]"
    using a by (simp add: hello_body_fields)
  have d: "fst (send_handler (relay_env (Some ''secret'') (Inr accepted)) hello_body)
       = Inr \<lparr>statusCode = 200,
              sent = Some (JObj [(''success'', JBool True),
                                 (''notificationId'', JStr ''abc123'')])\<rparr>"
    using a[THEN conjunct2, THEN conjunct1, rule_format,
            of accepted "[(''id'', JStr ''abc123'')]" "''abc123''"] o
    by (simp add: relay_env_simps accepted_def)
  have e: "fst (send_handler (relay_env (Some ''secret'') (Inr accepted_without_id)) hello_body)
       = Inr \<lparr>statusCode = 200, sent = Some (JObj [(''success'', JBool True)])\<rparr>"
    using b[THEN conjunct2, THEN conjunct2, rule_format,
            of accepted_without_id "[(''errors'', JArr [])]"] o
    by (simp add: relay_env_simps accepted_without_id_def)
  from c d e o k1 show ?thesis by (simp add: hello_body_fields)
qed




lemma coerce_scalar_string: "coerce_scalar v = Some w \<Longrightarrow> \<exists>s. w = JStr s"
  by (cases v) auto

lemma coerce_string_string: "coerce_string v = Some w \<Longrightarrow> \<exists>s. w = JStr s"
  by (induction v rule: coerce_string.induct) (auto dest: coerce_scalar_string)

lemma validate_body_strings:
  "validate_body raw = Some rb \<Longrightarrow> \<exists>t m. title rb = JStr t \<and> message rb = JStr m"
  by (auto simp: validate_body_def split: js_value.splits option.splits
        dest: coerce_string_string)







text \<open>
  Claim C3. A request with both fields non-empty, handled while the provider's REST key
  is absent from the process environment (or empty), is answered 500 with
  \<open>{success: false, error: "OneSignal not configured"}\<close>, and no call to the provider is
  made.
\<close>

theorem unconfigured_key_rejected:
  assumes "truthy (title rb)" and "truthy (message rb)"
    and "ONESIGNAL_REST_API_KEY env = None \<or> ONESIGNAL_REST_API_KEY env = Some []"
  shows "fst (send_handler env rb) = Inr (failure 500 ''OneSignal not configured'')
       \<and> calls (snd (send_handler env rb)) = []"
proof -
  from assms(3) have "\<not> truthy (env_value (ONESIGNAL_REST_API_KEY env))"
    by (auto simp: env_value_def)
  with assms(1,2) show ?thesis
    by (simp add: send_handler_reply send_handler_calls try_block_unconfigured logger_calls
          initial_effects_calls)
qed

theorem unconfigured_key_rejected_witness:
  "truthy (title hello_body) \<and> truthy (message hello_body)
   \<and> ONESIGNAL_REST_API_KEY (relay_env None (Inr accepted)) = None
   \<and> fst (send_handler (relay_env None (Inr accepted)) hello_body) =
       Inr (failure 500 ''OneSignal not configured'')
   \<and> calls (snd (send_handler (relay_env None (Inr accepted)) hello_body)) = []"
proof -
  have k: "ONESIGNAL_REST_API_KEY (relay_env None (Inr accepted)) = None
           \<or> ONESIGNAL_REST_API_KEY (relay_env None (Inr accepted)) = Some []"
    by (simp add: relay_env_simps)
  show ?thesis
    using unconfigured_key_rejected[OF hello_body_fields(3,4) k]
    by (simp add: hello_body_fields relay_env_simps)
qed

text \<open>
  Claim C4, as the specification states it: whenever the provider answers a well-formed
  request with a status outside 200..299, the relay answers 500 with
  \<open>error: "OneSignal API error: <status text>"\<close>. It fails when the provider's body
  cannot be read: \<open>response.text()\<close> is awaited inside the \<open>try\<close>, so its rejection goes
  to the \<open>catch\<close> clause, which answers with the message of that error.
\<close>

theorem provider_error_unreadable_counterexample:
  "truthy (title hello_body) \<and> truthy (message hello_body)
   \<and> ONESIGNAL_REST_API_KEY (relay_env (Some ''secret'') (Inr refused_unreadable)) = Some ''secret''
   \<and> fetch (relay_env (Some ''secret'') (Inr refused_unreadable))
        (provider_call ''secret'' (title hello_body) (message hello_body)) = Inr refused_unreadable
   \<and> \<not> ok refused_unreadable
   \<and> fst (send_handler (relay_env (Some ''secret'') (Inr refused_unreadable)) hello_body)
       = Inr (failure 500 ''terminated'')
   \<and> fst (send_handler (relay_env (Some ''secret'') (Inr refused_unreadable)) hello_body)
       \<noteq> Inr (failure 500 (''OneSignal API error: '' @ statusText refused_unreadable))"
proof -
  have k: "ONESIGNAL_REST_API_KEY (relay_env (Some ''secret'') (Inr refused_unreadable))
             = Some ''secret''"
    by (simp add: relay_env_simps)
  have n: "''secret'' \<noteq> []" by simp
  have o: "\<not> ok refused_unreadable" by (simp add: ok_def refused_unreadable_def)
  have "fst (try_block (relay_env (Some ''secret'') (Inr refused_unreadable))
               (title hello_body) (message hello_body) (initial_effects hello_body))
          = Inl (JError ''terminated'')"
    by (rule try_block_throws(2)[OF hello_body_fields(3,4) k n _ o])
       (simp_all add: relay_env_simps refused_unreadable_def)
  then have r: "fst (send_handler (relay_env (Some ''secret'') (Inr refused_unreadable)) hello_body)
       = Inr (failure 500 ''terminated'')"
    by (simp add: send_handler_reply)
  have "failure 500 ''terminated''
          \<noteq> failure 500 (''OneSignal API error: '' @ statusText refused_unreadable)"
    by (simp add: failure_def)
  with r k o show ?thesis by (simp add: hello_body_fields relay_env_simps)
qed

text \<open>
  Claim C4, amended. Whenever the provider answers a well-formed request with a status
  outside 200..299 and its body is read without error, the relay answers 500 with
  \<open>{success: false, error: "OneSignal API error: <status text>"}\<close>; and the answer does
  not depend on the provider's body: any other body, read as text or as JSON, gives the
  same answer.
\<close>

theorem provider_error_reported:
  assumes "truthy (title rb)" and "truthy (message rb)"
    and "ONESIGNAL_REST_API_KEY env = Some key" and "key \<noteq> []"
    and "fetch env (provider_call key (title rb) (message rb)) = Inr response"
    and "\<not> ok response" and "text_body response = Inr errorData"
  shows "fst (send_handler env rb) =
           Inr (failure 500 (''OneSignal API error: '' @ statusText response))
    \<and> (\<forall>errorData' jsonData'.
          fst (send_handler
                 (env\<lparr>fetch := (\<lambda>c. Inr (response\<lparr>text_body := Inr errorData',
                                                    json_body := jsonData'\<rparr>))\<rparr>) rb) =
          fst (send_handler env rb))"
proof -
  have a: "fst (send_handler env rb) =
           Inr (failure 500 (''OneSignal API error: '' @ statusText response))"
    using try_block_refused[OF assms, of "initial_effects rb"] by (simp add: send_handler_reply)
  have b: "fst (send_handler
                 (env\<lparr>fetch := (\<lambda>c. Inr (response\<lparr>text_body := Inr errorData',
                                                    json_body := jsonData'\<rparr>))\<rparr>) rb) =
           Inr (failure 500 (''OneSignal API error: '' @ statusText response))"
    for errorData' jsonData'
  proof -
    let ?r = "response\<lparr>text_body := Inr errorData', json_body := jsonData'\<rparr>"
    let ?e = "env\<lparr>fetch := (\<lambda>c. Inr ?r)\<rparr>"
    have k: "ONESIGNAL_REST_API_KEY ?e = Some key" using assms(3) by simp
    have f: "fetch ?e (provider_call key (title rb) (message rb)) = Inr ?r" by simp
    have n: "\<not> ok ?r" using assms(6) by (simp add: ok_def)
    have t: "text_body ?r = Inr errorData'" by simp
    show ?thesis
      using try_block_refused[OF assms(1,2) k assms(4) f n t, of "initial_effects rb"]
      by (simp add: send_handler_reply)
  qed
  from a b show ?thesis by simp
qed

text \<open>The provider refuses with 400 Bad Request and a body naming its reason.\<close>

theorem provider_error_reported_witness:
  "truthy (title hello_body) \<and> truthy (message hello_body)
   \<and> ONESIGNAL_REST_API_KEY (relay_env (Some ''secret'') (Inr refused)) = Some ''secret''
   \<and> \<not> ok refused \<and> text_body refused = Inr ''app_id not found''
   \<and> fst (send_handler (relay_env (Some ''secret'') (Inr refused)) hello_body) =
       Inr (failure 500 ''OneSignal API error: Bad Request'')"
proof -
  have k: "ONESIGNAL_REST_API_KEY (relay_env (Some ''secret'') (Inr refused)) = Some ''secret''"
    by (simp add: relay_env_simps)
  have n: "''secret'' \<noteq> []" by simp
  have f: "fetch (relay_env (Some ''secret'') (Inr refused))
             (provider_call ''secret'' (title hello_body) (message hello_body)) = Inr refused"
    by (simp add: relay_env_simps)
  have o: "\<not> ok refused" by (simp add: ok_def refused_def)
  have t: "text_body refused = Inr ''app_id not found''" by (simp add: refused_def)
  have s: "statusText refused = ''Bad Request''" by (simp add: refused_def)
  show ?thesis
    using provider_error_reported[OF hello_body_fields(3,4) k n f o t] k o t
    by (simp add: hello_body_fields s)
qed

text \<open>
  Claim C5. No exception leaves the handler: it always returns a reply. Whatever is
  thrown inside its \<open>try\<close> block is answered 500 with \<open>{success: false, error: e}\<close>,
  where \<open>e\<close> is the message of the thrown value when it is an \<open>Error\<close> and
  \<open>"Unknown error occurred"\<close> otherwise. That holds in particular for a \<open>fetch\<close> that
  rejects (a network failure), for a body that cannot be read, for a body that is not
  JSON, and for a body that is the JSON \<open>null\<close>. The statements outside the \<open>try\<close>
  (reading the two fields of the body object, the log calls, sending the reply) do not
  throw.
\<close>

theorem exceptions_answered:
  "(\<exists>reply. fst (send_handler env rb) = Inr reply)
   \<and> (\<forall>error. fst (try_block env (title rb) (message rb) (initial_effects rb)) = Inl error
        \<longrightarrow> fst (send_handler env rb) =
              Inr (failure 500 (if instanceof_Error error then error_message error
                                else ''Unknown error occurred'')))
   \<and> (\<forall>key response responseData error.
        truthy (title rb) \<and> truthy (message rb)
        \<and> ONESIGNAL_REST_API_KEY env = Some key \<and> key \<noteq> []
        \<and> (fetch env (provider_call key (title rb) (message rb)) = Inl error
           \<or> fetch env (provider_call key (title rb) (message rb)) = Inr response
             \<and> (if ok response
                 then json_body response = Inl error
                    \<or> json_body response = Inr responseData \<and> get_id responseData = Inl error
                 else text_body response = Inl error))
        \<longrightarrow> fst (send_handler env rb) =
              Inr (failure 500 (if instanceof_Error error then error_message error
                                else ''Unknown error occurred'')))"
proof (intro conjI allI impI)
  show "\<exists>reply. fst (send_handler env rb) = Inr reply"
    by (simp add: send_handler_reply split: sum.split)
next
  fix error
  assume "fst (try_block env (title rb) (message rb) (initial_effects rb)) = Inl error"
  then show "fst (send_handler env rb) =
              Inr (failure 500 (if instanceof_Error error then error_message error
                                else ''Unknown error occurred''))"
    by (simp add: send_handler_reply)
next
  fix key response responseData error
  assume h: "truthy (title rb) \<and> truthy (message rb)
        \<and> ONESIGNAL_REST_API_KEY env = Some key \<and> key \<noteq> []
        \<and> (fetch env (provider_call key (title rb) (message rb)) = Inl error
           \<or> fetch env (provider_call key (title rb) (message rb)) = Inr response
             \<and> (if ok response
                 then json_body response = Inl error
                    \<or> json_body response = Inr responseData \<and> get_id responseData = Inl error
                 else text_body response = Inl error))"
  then have w: "truthy (title rb)" "truthy (message rb)"
      "ONESIGNAL_REST_API_KEY env = Some key" "key \<noteq> []"
    by simp_all
  from h have "fst (try_block env (title rb) (message rb) (initial_effects rb)) = Inl error"
    using try_block_throws[OF w, where fx = "initial_effects rb"]
    by (auto split: if_splits)
  then show "fst (send_handler env rb) =
              Inr (failure 500 (if instanceof_Error error then error_message error
                                else ''Unknown error occurred''))"
    by (simp add: send_handler_reply)
qed

text \<open>
  A \<open>fetch\<close> that rejects with \<open>Error("fetch failed")\<close>, one that rejects with a string,
  and a provider whose body is the JSON \<open>null\<close>.
\<close>

theorem exceptions_answered_witness:
  "fst (try_block (relay_env (Some ''secret'') (Inl (JError ''fetch failed'')))
          (title hello_body) (message hello_body) (initial_effects hello_body))
     = Inl (JError ''fetch failed'')
   \<and> fst (send_handler (relay_env (Some ''secret'') (Inl (JError ''fetch failed''))) hello_body)
     = Inr (failure 500 ''fetch failed'')
   \<and> fst (send_handler (relay_env (Some ''secret'') (Inl (JStr ''boom''))) hello_body)
     = Inr (failure 500 ''Unknown error occurred'')
   \<and> ok (accepted\<lparr>json_body := Inr JNull\<rparr>)
   \<and> fst (send_handler (relay_env (Some ''secret'') (Inr (accepted\<lparr>json_body := Inr JNull\<rparr>)))
            hello_body)
     = Inr (failure 500 (''Cannot read properties of null (reading '' @ [CHR 0x27] @ ''id''
                           @ [CHR 0x27] @ '')''))"
proof -
  have n: "''secret'' \<noteq> []" by simp
  have t: "fst (try_block (relay_env (Some ''secret'') (Inl e))
                  (title hello_body) (message hello_body) (initial_effects hello_body)) = Inl e"
    for e
    by (rule try_block_throws(1)[OF hello_body_fields(3,4) _ n])
       (simp_all add: relay_env_simps)
  have o: "ok (accepted\<lparr>json_body := Inr JNull\<rparr>)"
    by (simp add: ok_def accepted_def)
  have a: "fst (send_handler (relay_env (Some ''secret'') (Inl (JError ''fetch failed'')))
                  hello_body) = Inr (failure 500 ''fetch failed'')"
    using exceptions_answered[of "relay_env (Some ''secret'') (Inl (JError ''fetch failed''))"
            hello_body, THEN conjunct2, THEN conjunct1, rule_format, OF t]
    by simp
  have b: "fst (send_handler (relay_env (Some ''secret'') (Inl (JStr ''boom''))) hello_body)
             = Inr (failure 500 ''Unknown error occurred'')"
    using exceptions_answered[of "relay_env (Some ''secret'') (Inl (JStr ''boom''))"
            hello_body, THEN conjunct2, THEN conjunct1, rule_format, OF t]
    by simp
  have c: "fst (send_handler
                  (relay_env (Some ''secret'') (Inr (accepted\<lparr>json_body := Inr JNull\<rparr>)))
                  hello_body)
     = Inr (failure 500 (''Cannot read properties of null (reading '' @ [CHR 0x27] @ ''id''
                           @ [CHR 0x27] @ '')''))"
    using exceptions_answered[
            of "relay_env (Some ''secret'') (Inr (accepted\<lparr>json_body := Inr JNull\<rparr>))"
               hello_body, THEN conjunct2, THEN conjunct2, rule_format,
            where key = "''secret''" and response = "accepted\<lparr>json_body := Inr JNull\<rparr>"
              and responseData = JNull
              and error = "JError (''Cannot read properties of null (reading '' @ [CHR 0x27] @ ''id''
                           @ [CHR 0x27] @ '')'')"] o
    by (simp add: hello_body_fields relay_env_simps)
  from a b c o t[of "JError ''fetch failed''"] show ?thesis by simp
qed


section \<open>The client: properties\<close>

subsection \<open>What the traces and the setters leave alone\<close>

lemma call_sdk_simps:
  "sdk_calls (call_sdk c s) = sdk_calls s @ [c]"
  "hasPermission (call_sdk c s) = hasPermission s"
  "permissionDenied (call_sdk c s) = permissionDenied s"
  "loading (call_sdk c s) = loading s"
  by (simp_all add: call_sdk_def)

lemma console_print_simps:
  "sdk_calls (console_print lv m args s) = sdk_calls s"
  "hasPermission (console_print lv m args s) = hasPermission s"
  "permissionDenied (console_print lv m args s) = permissionDenied s"
  "loading (console_print lv m args s) = loading s"
  by (simp_all add: console_print_def)

lemma render_simps:
  "sdk_calls (render s) = sdk_calls s"
  "hasPermission (render s) = hasPermission s"
  "permissionDenied (render s) = permissionDenied s"
  "loading (render s) = loading s"
  "rendered (render s) = rendered s @ [(hasPermission s, permissionDenied s)]"
  by (simp_all add: render_def)

lemma setter_simps:
  "sdk_calls (setHasPermission v s) = sdk_calls s"
  "hasPermission (setHasPermission v s) = v"
  "permissionDenied (setHasPermission v s) = permissionDenied s"
  "loading (setHasPermission v s) = loading s"
  "sdk_calls (setPermissionDenied v s) = sdk_calls s"
  "hasPermission (setPermissionDenied v s) = hasPermission s"
  "permissionDenied (setPermissionDenied v s) = v"
  "loading (setPermissionDenied v s) = loading s"
  "sdk_calls (setLoading v s) = sdk_calls s"
  "hasPermission (setLoading v s) = hasPermission s"
  "permissionDenied (setLoading v s) = permissionDenied s"
  "loading (setLoading v s) = v"
  "sdk_calls (setLastNotification w s) = sdk_calls s"
  "hasPermission (setLastNotification w s) = hasPermission s"
  "permissionDenied (setLastNotification w s) = permissionDenied s"
  "loading (setLastNotification w s) = loading s"
  by (simp_all add: setHasPermission_def setPermissionDenied_def setLoading_def
        setLastNotification_def render_simps)

lemmas trace_simps = call_sdk_simps console_print_simps setter_simps

lemma init_try_permissionDenied:
  "permissionDenied (snd (init_try cfg sdk s)) = permissionDenied s"
  by (simp add: init_try_def Let_def trace_simps split: sum.split)

lemma mount_effect_permissionDenied:
  "permissionDenied (snd (mount_effect cfg sdk s)) = permissionDenied s"
  using init_try_permissionDenied[of cfg sdk s]
  by (auto simp: mount_effect_def trace_simps split: sum.split prod.split)

lemma missing_app_id:
  "oneSignalAppId cfg = None \<or> oneSignalAppId cfg = Some [] \<Longrightarrow> ONESIGNAL_APP_ID cfg = []"
  by (auto simp: ONESIGNAL_APP_ID_def env_value_def)

lemma platforms:
  "isWeb web_app" "\<not> isWeb ios_app" "\<not> isWeb ios_without_app_id"
  "ONESIGNAL_APP_ID ios_without_app_id = []"
  by (simp_all add: isWeb_def web_app_def ios_app_def ios_without_app_id_def missing_app_id)

lemma answering_sdk_simps:
  "OneSignal_initialize (answering_sdk g) a = Inr ()"
  "Notifications_hasPermission (answering_sdk g) = Inr g"
  "Notifications_addEventListener (answering_sdk g) n = Inr ()"
  "Notifications_requestPermission (answering_sdk g) f = Inr g"
  "User_addTag (answering_sdk g) k v = Inr ()"
  "User_removeTag (answering_sdk g) k = Inr ()"
  by (simp_all add: answering_sdk_def)

lemma failing_sdk_simps:
  "OneSignal_initialize failing_sdk a = Inl (JError ''native module missing'')"
  "Notifications_hasPermission failing_sdk = Inl (JError ''native module missing'')"
  "Notifications_addEventListener failing_sdk n = Inl (JError ''native module missing'')"
  "Notifications_requestPermission failing_sdk f = Inl (JError ''native module missing'')"
  "User_addTag failing_sdk k v = Inl (JError ''native module missing'')"
  "User_removeTag failing_sdk k = Inl (JError ''native module missing'')"
  by (simp_all add: failing_sdk_def)

lemma initial_state_simps:
  "hasPermission initial_state = False" "permissionDenied initial_state = False"
  "loading initial_state = True" "sdk_calls initial_state = []"
  by (simp_all add: initial_state_def)

subsection \<open>The flags exclude each other along every run\<close>

lemma step_exclusive: "exclusive s \<Longrightarrow> exclusive (step cfg s x)"
proof (cases x)
  case (Pair sdk a)
  assume "exclusive s"
  then show ?thesis unfolding Pair
    by (cases a)
       (auto simp: exclusive_def requestPermission_def sendTag_def deleteTag_def
          permissionChange_def foregroundWillDisplay_def Let_def trace_simps split: sum.split)
qed

lemma foldl_step_exclusive: "exclusive s \<Longrightarrow> exclusive (foldl (step cfg) s steps)"
  by (induction steps arbitrary: s) (simp_all add: step_exclusive)

lemma mounted_exclusive: "exclusive (snd (mount_effect cfg sdk initial_state))"
  by (simp add: exclusive_def mount_effect_permissionDenied initial_state_simps)

subsection \<open>The provider's contract\<close>

text \<open>
  Claim C6. On the web, \<open>requestPermission\<close> resolves to \<open>false\<close> and calls nothing of the
  SDK (the state, with its trace of SDK calls, is unchanged). Elsewhere it asks the SDK
  for the permission, with the fallback flag \<open>true\<close>; when the SDK answers with a
  boolean, it sets \<open>hasPermission\<close> to it and \<open>permissionDenied\<close> to its negation, and
  resolves to that boolean.
\<close>

theorem requestPermission_contract:
  "(isWeb cfg \<longrightarrow> requestPermission cfg sdk s = (Inr False, s))
   \<and> (\<forall>granted. \<not> isWeb cfg \<and> Notifications_requestPermission sdk True = Inr granted \<longrightarrow>
         fst (requestPermission cfg sdk s) = Inr granted
         \<and> sdk_calls (snd (requestPermission cfg sdk s)) = sdk_calls s @ [RequestPermission True]
         \<and> hasPermission (snd (requestPermission cfg sdk s)) = granted
         \<and> permissionDenied (snd (requestPermission cfg sdk s)) = (\<not> granted))"
  by (simp add: requestPermission_def Let_def trace_simps)

theorem requestPermission_contract_witness:
  "isWeb web_app
   \<and> requestPermission web_app (answering_sdk True) initial_state = (Inr False, initial_state)
   \<and> \<not> isWeb ios_app
   \<and> Notifications_requestPermission (answering_sdk True) True = Inr True
   \<and> fst (requestPermission ios_app (answering_sdk True) initial_state) = Inr True
   \<and> sdk_calls (snd (requestPermission ios_app (answering_sdk True) initial_state))
       = [RequestPermission True]
   \<and> hasPermission (snd (requestPermission ios_app (answering_sdk True) initial_state))
   \<and> \<not> permissionDenied (snd (requestPermission ios_app (answering_sdk True) initial_state))
   \<and> fst (requestPermission ios_app (answering_sdk False) initial_state) = Inr False
   \<and> permissionDenied (snd (requestPermission ios_app (answering_sdk False) initial_state))"
  using requestPermission_contract[of web_app "answering_sdk True" initial_state, THEN conjunct1]
    requestPermission_contract[of ios_app "answering_sdk True" initial_state,
      THEN conjunct2, rule_format, of True]
    requestPermission_contract[of ios_app "answering_sdk False" initial_state,
      THEN conjunct2, rule_format, of False]
  by (simp add: platforms answering_sdk_simps initial_state_simps)

text \<open>
  Claim C7, as the specification states it: on a platform other than the web, after an
  initialisation that found no application identifier, \<open>requestPermission\<close>, \<open>sendTag\<close>
  and \<open>deleteTag\<close> do nothing and call nothing of the SDK. The operations test \<open>isWeb\<close>
  only: on iOS without an identifier, \<open>requestPermission\<close> calls the SDK and sets
  \<open>hasPermission\<close>, and \<open>sendTag\<close> and \<open>deleteTag\<close> call the SDK too.
\<close>

theorem missing_app_id_operations_counterexample:
  "\<not> isWeb ios_without_app_id \<and> ONESIGNAL_APP_ID ios_without_app_id = []
   \<and> sdk_calls (snd (mount_effect ios_without_app_id (answering_sdk True) initial_state)) = []
   \<and> sdk_calls (snd (requestPermission ios_without_app_id (answering_sdk True)
                       (snd (mount_effect ios_without_app_id (answering_sdk True) initial_state))))
       = [RequestPermission True]
   \<and> hasPermission (snd (requestPermission ios_without_app_id (answering_sdk True)
                       (snd (mount_effect ios_without_app_id (answering_sdk True) initial_state))))
   \<and> sdk_calls (snd (sendTag ios_without_app_id (answering_sdk True) ''k'' ''v''
                       (snd (mount_effect ios_without_app_id (answering_sdk True) initial_state))))
       = [AddTag ''k'' ''v'']
   \<and> sdk_calls (snd (deleteTag ios_without_app_id (answering_sdk True) ''k''
                       (snd (mount_effect ios_without_app_id (answering_sdk True) initial_state))))
       = [RemoveTag ''k'']"
  by (simp add: platforms mount_effect_def requestPermission_def sendTag_def deleteTag_def
        Let_def trace_simps answering_sdk_simps initial_state_simps)

text \<open>
  Claim C7, amended. On a platform other than the web, the initialisation with a
  missing application identifier leaves \<open>loading = false\<close> and \<open>hasPermission = false\<close>
  and calls nothing of the SDK; the operations are not gated on the identifier:
  \<open>requestPermission\<close>, \<open>sendTag\<close> and \<open>deleteTag\<close> each make their one SDK call.
\<close>

theorem missing_app_id_initialisation:
  assumes "\<not> isWeb cfg" and "ONESIGNAL_APP_ID cfg = []"
  shows "loading (snd (mount_effect cfg sdk initial_state)) = False
    \<and> hasPermission (snd (mount_effect cfg sdk initial_state)) = False
    \<and> sdk_calls (snd (mount_effect cfg sdk initial_state)) = []
    \<and> sdk_calls (snd (requestPermission cfg sdk' s)) = sdk_calls s @ [RequestPermission True]
    \<and> sdk_calls (snd (sendTag cfg sdk' key val s)) = sdk_calls s @ [AddTag key val]
    \<and> sdk_calls (snd (deleteTag cfg sdk' key s)) = sdk_calls s @ [RemoveTag key]"
  using assms
  by (simp add: mount_effect_def requestPermission_def sendTag_def deleteTag_def
        Let_def trace_simps initial_state_simps split: sum.split)

theorem missing_app_id_initialisation_witness:
  "\<not> isWeb ios_without_app_id \<and> ONESIGNAL_APP_ID ios_without_app_id = []
   \<and> \<not> loading (snd (mount_effect ios_without_app_id failing_sdk initial_state))
   \<and> \<not> hasPermission (snd (mount_effect ios_without_app_id failing_sdk initial_state))
   \<and> sdk_calls (snd (mount_effect ios_without_app_id failing_sdk initial_state)) = []
   \<and> sdk_calls (snd (sendTag ios_without_app_id failing_sdk ''k'' ''v'' initial_state))
       = [AddTag ''k'' ''v'']"
  using missing_app_id_initialisation[OF platforms(3,4), of failing_sdk failing_sdk
          initial_state "''k''" "''v''"]
  by (simp add: platforms initial_state_simps)

text \<open>
  Claim C8. Whatever the SDK does, no exception leaves \<open>requestPermission\<close>, \<open>sendTag\<close>
  or \<open>deleteTag\<close>: \<open>requestPermission\<close> always resolves, and to \<open>false\<close> when the SDK call
  fails; \<open>sendTag(k, v)\<close> followed by \<open>deleteTag(k)\<close> both return, on every platform
  and for every behaviour of the SDK at either call.
\<close>

theorem sdk_failures_swallowed:
  "(\<exists>b. fst (requestPermission cfg sdk s) = Inr b)
   \<and> (\<forall>error. \<not> isWeb cfg \<and> Notifications_requestPermission sdk True = Inl error \<longrightarrow>
         fst (requestPermission cfg sdk s) = Inr False)
   \<and> fst (sendTag cfg sdk key val s) = Inr ()
   \<and> fst (deleteTag cfg sdk' key (snd (sendTag cfg sdk key val s))) = Inr ()"
  by (auto simp: requestPermission_def sendTag_def deleteTag_def Let_def split: sum.split)

theorem sdk_failures_swallowed_witness:
  "\<not> isWeb ios_app
   \<and> Notifications_requestPermission failing_sdk True = Inl (JError ''native module missing'')
   \<and> User_addTag failing_sdk ''k'' ''v'' = Inl (JError ''native module missing'')
   \<and> User_removeTag failing_sdk ''k'' = Inl (JError ''native module missing'')
   \<and> fst (requestPermission ios_app failing_sdk initial_state) = Inr False
   \<and> fst (sendTag ios_app failing_sdk ''k'' ''v'' initial_state) = Inr ()
   \<and> fst (deleteTag ios_app failing_sdk ''k''
            (snd (sendTag ios_app failing_sdk ''k'' ''v'' initial_state))) = Inr ()"
  using sdk_failures_swallowed[of ios_app failing_sdk initial_state "''k''" "''v''" failing_sdk,
          THEN conjunct2, THEN conjunct1, rule_format, of "JError ''native module missing''"]
    sdk_failures_swallowed[of ios_app failing_sdk initial_state "''k''" "''v''" failing_sdk,
          THEN conjunct2, THEN conjunct2]
  by (simp add: platforms failing_sdk_simps)

text \<open>
  Claim C9. The mount effect always returns, and on each of its paths (the web, a
  missing application identifier, a successful initialisation, an exception of the
  SDK) it leaves \<open>loading = false\<close>.
\<close>

theorem loading_cleared:
  "fst (mount_effect cfg sdk s) = Inr () \<and> loading (snd (mount_effect cfg sdk s)) = False"
  by (simp add: mount_effect_def setter_simps split: sum.split prod.split)

text \<open>The four paths: the web, no identifier, an SDK that answers, an SDK that throws.\<close>

theorem loading_cleared_witness:
  "loading initial_state
   \<and> \<not> loading (snd (mount_effect web_app (answering_sdk True) initial_state))
   \<and> \<not> loading (snd (mount_effect ios_without_app_id (answering_sdk True) initial_state))
   \<and> \<not> loading (snd (mount_effect ios_app (answering_sdk True) initial_state))
   \<and> \<not> loading (snd (mount_effect ios_app failing_sdk initial_state))
   \<and> fst (mount_effect ios_app failing_sdk initial_state) = Inr ()"
  using loading_cleared[of web_app "answering_sdk True" initial_state]
    loading_cleared[of ios_without_app_id "answering_sdk True" initial_state]
    loading_cleared[of ios_app "answering_sdk True" initial_state]
    loading_cleared[of ios_app failing_sdk initial_state]
  by (simp add: initial_state_simps)

text \<open>
  Claim C10, as the specification states it: in every reachable state \<open>hasPermission\<close>
  and \<open>permissionDenied\<close> are never both true, because every update that writes
  \<open>permissionDenied\<close> sets both flags simultaneously. The code sets them by two calls,
  \<open>setHasPermission(granted)\<close> and then \<open>setPermissionDenied(!granted)\<close>. On iOS, after a
  request that the user refused, the state is \<open>(false, true)\<close>; when the listener then
  reports a grant, the state after its first call is \<open>(true, true)\<close>.
\<close>

theorem permission_flags_counterexample:
  "hasPermission (run ios_app (answering_sdk False) [(answering_sdk False, Request_permission)])
     = False
   \<and> permissionDenied (run ios_app (answering_sdk False)
        [(answering_sdk False, Request_permission)]) = True
   \<and> hasPermission (setHasPermission True
        (run ios_app (answering_sdk False) [(answering_sdk False, Request_permission)]))
   \<and> permissionDenied (setHasPermission True
        (run ios_app (answering_sdk False) [(answering_sdk False, Request_permission)]))
   \<and> (True, True) \<in> set (rendered (run ios_app (answering_sdk False)
        [(answering_sdk False, Request_permission), (answering_sdk True, Permission_change True)]))"
proof -
  let ?s = "run ios_app (answering_sdk False) [(answering_sdk False, Request_permission)]"
  have a: "hasPermission ?s = False" "permissionDenied ?s = True"
    by (simp_all add: run_def requestPermission_def platforms answering_sdk_simps Let_def
          trace_simps)
  have b: "run ios_app (answering_sdk False)
             [(answering_sdk False, Request_permission), (answering_sdk True, Permission_change True)]
           = permissionChange True ?s"
    by (simp add: run_def)
  have c: "(True, True) \<in> set (rendered (permissionChange True ?s))"
    using a
    by (simp add: permissionChange_def setPermissionDenied_def setHasPermission_def render_simps)
  from a b c show ?thesis by (simp add: setter_simps)
qed

text \<open>
  Claim C10, amended. At the end of the mount effect and of every operation and
  listener call that follows it, whatever the SDK does at each of them,
  \<open>hasPermission\<close> and \<open>permissionDenied\<close> are not both true, and the state of the first
  render is \<open>(false, false)\<close>. The two updates that write \<open>permissionDenied\<close>, the
  \<open>permissionChange\<close> listener and the success path of \<open>requestPermission\<close>, are two
  setter calls one after the other, \<open>hasPermission = granted\<close> and then
  \<open>permissionDenied = not granted\<close>, and leave the flags at \<open>(granted, not granted)\<close>.
\<close>

theorem permission_flags_exclusive:
  "hasPermission initial_state = False \<and> permissionDenied initial_state = False
   \<and> \<not> (hasPermission (run cfg sdk steps) \<and> permissionDenied (run cfg sdk steps))
   \<and> permissionChange granted s = setPermissionDenied (\<not> granted) (setHasPermission granted s)
   \<and> hasPermission (permissionChange granted s) = granted
   \<and> permissionDenied (permissionChange granted s) = (\<not> granted)
   \<and> (\<not> isWeb cfg \<and> Notifications_requestPermission sdk' True = Inr granted \<longrightarrow>
        snd (requestPermission cfg sdk' s) =
          setPermissionDenied (\<not> granted)
            (setHasPermission granted (call_sdk (RequestPermission True) s))
        \<and> hasPermission (snd (requestPermission cfg sdk' s)) = granted
        \<and> permissionDenied (snd (requestPermission cfg sdk' s)) = (\<not> granted))"
proof -
  have "exclusive (run cfg sdk steps)"
    unfolding run_def by (rule foldl_step_exclusive) (rule mounted_exclusive)
  then show ?thesis
    by (simp add: exclusive_def initial_state_simps permissionChange_def requestPermission_def
          Let_def trace_simps)
qed

text \<open>
  A run on iOS: the permission is held at mount, a request is refused, the listener
  reports a grant, a tag call fails.
\<close>

theorem permission_flags_exclusive_witness:
  "\<not> (hasPermission (run ios_app (answering_sdk True)
          [(answering_sdk False, Request_permission), (answering_sdk True, Permission_change True),
           (failing_sdk, Send_tag ''k'' ''v'')])
      \<and> permissionDenied (run ios_app (answering_sdk True)
          [(answering_sdk False, Request_permission), (answering_sdk True, Permission_change True),
           (failing_sdk, Send_tag ''k'' ''v'')]))
   \<and> \<not> isWeb ios_app \<and> Notifications_requestPermission (answering_sdk False) True = Inr False
   \<and> hasPermission (snd (requestPermission ios_app (answering_sdk False) initial_state)) = False
   \<and> permissionDenied (snd (requestPermission ios_app (answering_sdk False) initial_state)) = True"
  using permission_flags_exclusive[of ios_app "answering_sdk True"
          "[(answering_sdk False, Request_permission), (answering_sdk True, Permission_change True),
            (failing_sdk, Send_tag ''k'' ''v'')]" False initial_state "answering_sdk False"]
  by (simp add: platforms answering_sdk_simps setter_simps)

end
